theory Spec2Isabelle
  imports Complex_Main
begin

section \<open>Data model\<close>

text \<open>
  The monitor of \<^verbatim>\<open>src/monitor.ts\<close> reads usage blocks, derives a burn rate, a token
  limit, the next reset time and a predicted depletion time. The model keeps the
  source's names.

  Conventions of the embedding:
  \<^item> a JavaScript \<^verbatim>\<open>number\<close> is an exact \<^typ>\<open>real\<close>: rounding of IEEE doubles is not
    modelled;
  \<^item> an optional string field is a \<^typ>\<open>string option\<close>; the source tests such fields for
    truthiness, so the empty string counts as absent;
  \<^item> an optional boolean field is a \<^typ>\<open>bool\<close> (absent is falsy).
\<close>

record Block =
  startTime :: "string option"
  actualEndTime :: "string option"
  totalTokens :: real
  isGap :: bool
  isActive :: bool

text \<open>
  A \<^verbatim>\<open>Date\<close> object holds a time value, an integral number of milliseconds since the
  epoch, or is an Invalid Date (time value NaN). Relational operators on dates compare
  the time values and are false as soon as one side is NaN.
\<close>

datatype Date = TimeValue int | InvalidDate

fun date_lt :: "Date \<Rightarrow> Date \<Rightarrow> bool" where
  "date_lt (TimeValue a) (TimeValue b) = (a < b)"
| "date_lt _ _ = False"

fun date_le :: "Date \<Rightarrow> Date \<Rightarrow> bool" where
  "date_le (TimeValue a) (TimeValue b) = (a \<le> b)"
| "date_le _ _ = False"

definition date_gt :: "Date \<Rightarrow> Date \<Rightarrow> bool" where
  "date_gt a b = date_lt b a"

text \<open>
  \<^verbatim>\<open>new Date(v)\<close> for a number \<^verbatim>\<open>v\<close>: the time value is clipped (ECMAScript TimeClip): a
  magnitude above 8.64e15 ms gives an Invalid Date, any other value is truncated
  towards zero.
\<close>

definition truncate :: "real \<Rightarrow> int" where
  "truncate v = (if 0 \<le> v then \<lfloor>v\<rfloor> else \<lceil>v\<rceil>)"

definition newDate :: "real \<Rightarrow> Date" where
  "newDate v = (if 8640000000000000 < \<bar>v\<bar> then InvalidDate else TimeValue (truncate v))"

text \<open>
  \<^verbatim>\<open>(b.getTime() - a.getTime()) / 60000\<close>: the minutes from \<open>a\<close> to \<open>b\<close>;
  \<open>None\<close> stands for NaN.
\<close>

fun minutesBetween :: "Date \<Rightarrow> Date \<Rightarrow> real option" where
  "minutesBetween (TimeValue a) (TimeValue b) = Some (real_of_int (b - a) / 60000)"
| "minutesBetween _ _ = None"

section \<open>Burn rate over the trailing hour\<close>

text \<open>
  \<^verbatim>\<open>calculateHourlyBurnRate(blocks, currentTime)\<close>. The parameter \<open>parse\<close> is the
  runtime's \<^verbatim>\<open>new Date(string)\<close>, which never throws: an unparsable string gives an
  Invalid Date. \<open>currentTime\<close> is the time value of a valid date (the callers pass
  \<^verbatim>\<open>new Date()\<close>). The guard \<^verbatim>\<open>if (!blocks) return 0\<close> concerns a value outside the
  parameter's type \<^verbatim>\<open>Block[]\<close> and has no branch here.
\<close>

definition sessionActualEnd :: "(string \<Rightarrow> Date) \<Rightarrow> int \<Rightarrow> Block \<Rightarrow> Date" where
  "sessionActualEnd parse currentTime block =
     (if isActive block then TimeValue currentTime
      else (case actualEndTime block of
              None \<Rightarrow> TimeValue currentTime
            | Some actualEndStr \<Rightarrow>
                if actualEndStr \<noteq> [] then parse actualEndStr else TimeValue currentTime))"

text \<open>
  One iteration of the loop over the blocks; \<open>acc\<close> is the running \<^verbatim>\<open>totalTokens\<close>.
  Every \<^verbatim>\<open>continue\<close> returns \<open>acc\<close> unchanged. When the session duration is NaN the
  test \<^verbatim>\<open>totalSessionDuration > 0\<close> is false, which is the last branch.
\<close>

definition burnStep :: "(string \<Rightarrow> Date) \<Rightarrow> int \<Rightarrow> real \<Rightarrow> Block \<Rightarrow> real" where
  "burnStep parse currentTime acc block =
     (case startTime block of
        None \<Rightarrow> acc
      | Some startTimeStr \<Rightarrow>
          if startTimeStr = [] then acc
          else
            let start = parse startTimeStr in
            if isGap block then acc
            else
              let oneHourAgo = TimeValue (currentTime - 60 * 60 * 1000);
                  actualEnd = sessionActualEnd parse currentTime block in
              if date_lt actualEnd oneHourAgo then acc
              else
                let sessionStartInHour = (if date_gt start oneHourAgo then start else oneHourAgo);
                    sessionEndInHour =
                      (if date_lt actualEnd (TimeValue currentTime) then actualEnd
                       else TimeValue currentTime) in
                if date_le sessionEndInHour sessionStartInHour then acc
                else
                  (case (minutesBetween start actualEnd,
                         minutesBetween sessionStartInHour sessionEndInHour) of
                     (Some totalSessionDuration, Some hourDuration) \<Rightarrow>
                       if 0 < totalSessionDuration
                       then acc + totalTokens block * (hourDuration / totalSessionDuration)
                       else acc
                   | _ \<Rightarrow> acc))"

definition calculateHourlyBurnRate :: "(string \<Rightarrow> Date) \<Rightarrow> Block list \<Rightarrow> int \<Rightarrow> real" where
  "calculateHourlyBurnRate parse blocks currentTime =
     (let total = foldl (burnStep parse currentTime) 0 blocks
      in if 0 < total then total / 60 else 0)"

text \<open>
  The same quantity, written from the specification's words: the contribution of one
  block is \<open>totalTokens * (W / D)\<close> when the block is not a gap, its start time is known,
  its effective end (now if active, else the recorded end, else now) does not precede
  now minus 60 minutes, and both the clipped length \<open>W\<close> and the duration \<open>D\<close> are
  positive; the contributions are summed and divided by 60, and a non-positive total
  gives 0.
\<close>

definition spec_effectiveEnd :: "(string \<Rightarrow> Date) \<Rightarrow> int \<Rightarrow> Block \<Rightarrow> Date" where
  "spec_effectiveEnd parse now block =
     (if isActive block then TimeValue now
      else (case actualEndTime block of
              None \<Rightarrow> TimeValue now
            | Some s \<Rightarrow> if s = [] then TimeValue now else parse s))"

definition knownStart :: "(string \<Rightarrow> Date) \<Rightarrow> Block \<Rightarrow> int option" where
  "knownStart parse block =
     (case startTime block of
        None \<Rightarrow> None
      | Some s \<Rightarrow> if s = [] then None
                  else (case parse s of TimeValue t \<Rightarrow> Some t | InvalidDate \<Rightarrow> None))"

definition spec_contribution :: "(string \<Rightarrow> Date) \<Rightarrow> int \<Rightarrow> Block \<Rightarrow> real" where
  "spec_contribution parse now block =
     (if isGap block then 0
      else (case (knownStart parse block, spec_effectiveEnd parse now block) of
              (Some s, TimeValue e) \<Rightarrow>
                if e < now - 3600000 then 0
                else
                  let W = real_of_int (min e now - max s (now - 3600000)) / 60000;
                      D = real_of_int (e - s) / 60000
                  in if 0 < W \<and> 0 < D then totalTokens block * (W / D) else 0
            | _ \<Rightarrow> 0))"

definition spec_computeHourlyBurnRate :: "(string \<Rightarrow> Date) \<Rightarrow> Block list \<Rightarrow> int \<Rightarrow> real" where
  "spec_computeHourlyBurnRate parse blocks now =
     (let total = sum_list (map (spec_contribution parse now) blocks)
      in if 0 < total then total / 60 else 0)"

section \<open>Next reset time\<close>

text \<open>
  Local wall-clock fields of a time value. \<open>tz\<close> is the offset of the system's time zone
  from UTC in milliseconds, taken as fixed in these first definitions; a zone whose
  offset changes follows below. \<open>localDay\<close> numbers the local calendar days, the day that
  \<^verbatim>\<open>getDate\<close>, \<^verbatim>\<open>getMonth\<close> and \<^verbatim>\<open>getFullYear\<close> name. The dates of this section lie within
  two days of the system clock, so the range check of \<open>newDate\<close> is left out here.
\<close>

definition getHours :: "int \<Rightarrow> int \<Rightarrow> int" where
  "getHours tz t = ((t + tz) div 3600000) mod 24"

definition getMinutes :: "int \<Rightarrow> int \<Rightarrow> int" where
  "getMinutes tz t = ((t + tz) div 60000) mod 60"

definition getSeconds :: "int \<Rightarrow> int \<Rightarrow> int" where
  "getSeconds tz t = ((t + tz) div 1000) mod 60"

definition getMilliseconds :: "int \<Rightarrow> int \<Rightarrow> int" where
  "getMilliseconds tz t = (t + tz) mod 1000"

definition localDay :: "int \<Rightarrow> int \<Rightarrow> int" where
  "localDay tz t = (t + tz) div 86400000"

text \<open>\<^verbatim>\<open>d.setDate(d.getDate() + 1)\<close>: the same wall-clock time on the next calendar day.\<close>

definition setDateNextDay :: "int \<Rightarrow> int" where
  "setDateNextDay t = t + 86400000"

text \<open>
  \<^verbatim>\<open>d.setHours(hour, 0, 0, 0)\<close>: the local day of \<open>d\<close> at \<open>hour\<close>:00:00.000. An hour outside
  0..23 carries into the neighbouring days, as in the runtime.
\<close>

definition setHours :: "int \<Rightarrow> int \<Rightarrow> int \<Rightarrow> int" where
  "setHours tz t hour = localDay tz t * 86400000 + hour * 3600000 - tz"

definition resetHours :: "int option \<Rightarrow> int list" where
  "resetHours customResetHour =
     (case customResetHour of Some h \<Rightarrow> [h] | None \<Rightarrow> [4, 9, 14, 18, 23])"

definition resetPending :: "int \<Rightarrow> int \<Rightarrow> int \<Rightarrow> bool" where
  "resetPending currentHour currentMinute hour =
     (currentHour < hour \<or> (currentHour = hour \<and> currentMinute = 0))"

definition getNextResetTime :: "int \<Rightarrow> int \<Rightarrow> int option \<Rightarrow> int" where
  "getNextResetTime tz currentTime customResetHour =
     (let currentHour = getHours tz currentTime;
          currentMinute = getMinutes tz currentTime
      in case find (resetPending currentHour currentMinute) (resetHours customResetHour) of
           None \<Rightarrow> setHours tz (setDateNextDay currentTime) (hd (resetHours customResetHour))
         | Some nextResetHour \<Rightarrow> setHours tz currentTime nextResetHour)"















section \<open>Token limit\<close>

text \<open>
  \<^verbatim>\<open>getTokenLimit(plan, blocks?)\<close>. The table \<^verbatim>\<open>limits\<close> is an object literal, so the
  lookup \<^verbatim>\<open>limits[plan]\<close> finds its three own properties and, for any other key, the
  members it inherits from \<^verbatim>\<open>Object.prototype\<close>; every other key gives \<^verbatim>\<open>undefined\<close>.
  A result is therefore a number or an inherited member (a function or object, truthy).
\<close>

datatype Value = Number real | Inherited string

definition limits :: "(string \<times> real) list" where
  "limits = [(''pro'', 7000), (''max5'', 35000), (''max20'', 140000)]"

definition objectPrototypeKeys :: "string list" where
  "objectPrototypeKeys =
     [''constructor'', ''hasOwnProperty'', ''isPrototypeOf'', ''propertyIsEnumerable'',
      ''toLocaleString'', ''toString'', ''valueOf'', ''__proto__'',
      ''__defineGetter__'', ''__defineSetter__'', ''__lookupGetter__'', ''__lookupSetter__'']"

definition limitsLookup :: "string \<Rightarrow> Value option" where
  "limitsLookup plan =
     (case map_of limits plan of
        Some n \<Rightarrow> Some (Number n)
      | None \<Rightarrow> if plan \<in> set objectPrototypeKeys then Some (Inherited plan) else None)"

text \<open>
  The loop of the \<^verbatim>\<open>custom_max\<close> branch; \<^verbatim>\<open>block.totalTokens || 0\<close> is the number itself.
  In \<open>getTokenLimit\<close> the test \<^verbatim>\<open>plan === 'custom_max' && blocks\<close> selects that branch: an
  array, also the empty one, is truthy, and \<open>None\<close> is the omitted argument. The result
  \<^verbatim>\<open>limits[plan] || 7000\<close> is 7000 when the lookup is \<^verbatim>\<open>undefined\<close> or the number 0.
\<close>

fun maxTokensLoop :: "real \<Rightarrow> Block list \<Rightarrow> real" where
  "maxTokensLoop maxTokens [] = maxTokens"
| "maxTokensLoop maxTokens (block # rest) =
     maxTokensLoop
       (if \<not> isGap block \<and> \<not> isActive block
        then (if totalTokens block > maxTokens then totalTokens block else maxTokens)
        else maxTokens)
       rest"

definition getTokenLimit :: "string \<Rightarrow> Block list option \<Rightarrow> Value" where
  "getTokenLimit plan blocks =
     (case (if plan = ''custom_max'' then blocks else None) of
        Some bs \<Rightarrow>
          (let maxTokens = maxTokensLoop 0 bs
           in Number (if maxTokens > 0 then maxTokens else 7000))
      | None \<Rightarrow>
          (case limitsLookup plan of
             None \<Rightarrow> Number 7000
           | Some (Number n) \<Rightarrow> if n = 0 then Number 7000 else Number n
           | Some (Inherited k) \<Rightarrow> Inherited k))"

section \<open>Predicted end time\<close>

text \<open>
  The prediction of \<^verbatim>\<open>main\<close> (the assignment of \<^verbatim>\<open>predictedEndTime\<close>). \<open>currentTime\<close>
  and \<open>resetTime\<close> are time values of valid dates.
\<close>

definition predictedEndTime :: "int \<Rightarrow> real \<Rightarrow> real \<Rightarrow> int \<Rightarrow> Date" where
  "predictedEndTime currentTime burnRate tokensLeft resetTime =
     (if burnRate > 0 \<and> tokensLeft > 0 then
        let minutesToDepletion = tokensLeft / burnRate;
            calculatedEndTime = newDate (real_of_int currentTime + minutesToDepletion * 60000)
        in if date_le calculatedEndTime (TimeValue currentTime) then TimeValue resetTime
           else if date_gt calculatedEndTime (TimeValue resetTime) then TimeValue resetTime
           else calculatedEndTime
      else TimeValue resetTime)"

section \<open>The polling loop\<close>

text \<open>
  One iteration of the loop of \<^verbatim>\<open>main\<close>. The configuration is what \<^verbatim>\<open>showMenu\<close> returned;
  the state is what survives an iteration: \<^verbatim>\<open>tokenLimit\<close> and \<^verbatim>\<open>burnRateHistory\<close>.
  \<open>data\<close> is \<open>None\<close> when \<^verbatim>\<open>runCcusage\<close> failed or gave no \<^verbatim>\<open>blocks\<close>; \<open>currentTime\<close> is the
  clock read by \<^verbatim>\<open>new Date()\<close>. An iteration that prints its line yields the values
  shown, an iteration that hits \<^verbatim>\<open>continue\<close> yields \<open>None\<close>.
\<close>

record Config =
  plan :: string
  resetHour :: "int option"

record MonitorState =
  tokenLimit :: real
  burnRateHistory :: "real list"

record Display =
  shownTokensUsed :: real
  shownTokenLimit :: real
  shownTokensLeft :: real
  shownUsagePercentage :: real
  shownBurnRate :: real
  shownResetTime :: int
  shownPredictedEndTime :: Date

text \<open>
  The statement \<^verbatim>\<open>if (tokensUsed > tokenLimit && plan === 'pro') { ... }\<close> of the loop: the
  value of \<^verbatim>\<open>tokenLimit\<close> after it. A value that is not a number compares as NaN, so
  \<^verbatim>\<open>newLimit > tokenLimit\<close> is false for it.
\<close>

definition raisedLimit :: "string \<Rightarrow> real \<Rightarrow> real \<Rightarrow> Block list \<Rightarrow> real" where
  "raisedLimit planName limit tokensUsed blocks =
     (if tokensUsed > limit \<and> planName = ''pro'' then
        (case getTokenLimit ''custom_max'' (Some blocks) of
           Number newLimit \<Rightarrow> if newLimit > limit then newLimit else limit
         | Inherited k \<Rightarrow> limit)
      else limit)"

definition tick ::
  "(string \<Rightarrow> Date) \<Rightarrow> int \<Rightarrow> Config \<Rightarrow> MonitorState \<Rightarrow> Block list option \<Rightarrow> int
     \<Rightarrow> MonitorState \<times> Display option" where
  "tick parse tz config state data currentTime =
     (case data of
        None \<Rightarrow> (state, None)
      | Some blocks \<Rightarrow>
          (case find isActive blocks of
             None \<Rightarrow> (state, None)
           | Some activeBlock \<Rightarrow>
               let tokensUsed = totalTokens activeBlock;
                   limit = raisedLimit (plan config) (tokenLimit state) tokensUsed blocks;
                   usagePercentage = (if limit > 0 then tokensUsed / limit * 100 else 0);
                   tokensLeft = limit - tokensUsed;
                   burnRate = calculateHourlyBurnRate parse blocks currentTime;
                   pushed = burnRateHistory state @ [burnRate];
                   history = (if length pushed > 120 then tl pushed else pushed);
                   resetTime = getNextResetTime tz currentTime None;
                   predicted = predictedEndTime currentTime burnRate tokensLeft resetTime
               in (\<lparr>tokenLimit = limit, burnRateHistory = history\<rparr>,
                   Some \<lparr>shownTokensUsed = tokensUsed, shownTokenLimit = limit,
                         shownTokensLeft = tokensLeft, shownUsagePercentage = usagePercentage,
                         shownBurnRate = burnRate, shownResetTime = resetTime,
                         shownPredictedEndTime = predicted\<rparr>)))"

text \<open>
  The loop itself never returns (\<^verbatim>\<open>while (true)\<close>, left by a signal). \<open>run\<close> gives the
  state after a finite sequence of its iterations, each with the snapshot it fetched and
  the clock it read.
\<close>

fun run ::
  "(string \<Rightarrow> Date) \<Rightarrow> int \<Rightarrow> Config \<Rightarrow> MonitorState \<Rightarrow> (Block list option \<times> int) list
     \<Rightarrow> MonitorState" where
  "run parse tz config state [] = state"
| "run parse tz config state ((data, currentTime) # polls) =
     run parse tz config (fst (tick parse tz config state data currentTime)) polls"

section \<open>Properties of the burn rate\<close>

text \<open>The loop body on a block whose start and end are both valid dates.\<close>

lemma burnStep_times:
  assumes "startTime b = Some str" "str \<noteq> []" "\<not> isGap b"
    and "parse str = TimeValue s" "sessionActualEnd parse now b = TimeValue e"
  shows "burnStep parse now acc b =
     (if e < now - 3600000 then acc
      else if min e now \<le> max s (now - 3600000) then acc
      else if 0 < real_of_int (e - s) / 60000
      then acc + totalTokens b *
             ((real_of_int (min e now - max s (now - 3600000)) / 60000) /
              (real_of_int (e - s) / 60000))
      else acc)"
  unfolding burnStep_def Let_def date_gt_def
  by (simp add: assms min_def max_def del: of_int_diff)

lemma burnStep_invalid_start:
  assumes "startTime b = Some str" "parse str = InvalidDate"
  shows "burnStep parse now acc b = acc"
  unfolding burnStep_def Let_def date_gt_def
  by (cases "sessionActualEnd parse now b") (simp_all add: assms)

lemma burnStep_invalid_end:
  assumes "sessionActualEnd parse now b = InvalidDate"
  shows "burnStep parse now acc b = acc"
  unfolding burnStep_def Let_def date_gt_def
  by (simp add: assms split: option.split Date.split)

text \<open>
  Whenever the session duration is a number, so is the duration inside the hour: the
  accumulator never becomes NaN.
\<close>

lemma hourDuration_defined:
  assumes "minutesBetween start actualEnd = Some d"
  shows "minutesBetween
           (if date_gt start (TimeValue oneHourAgo) then start else TimeValue oneHourAgo)
           (if date_lt actualEnd (TimeValue now) then actualEnd else TimeValue now) \<noteq> None"
proof -
  obtain s e where se: "start = TimeValue s" "actualEnd = TimeValue e"
    using assms by (cases start; cases actualEnd) simp_all
  have v: "minutesBetween (TimeValue a) (TimeValue b) \<noteq> None" for a b
    by simp
  show ?thesis
    unfolding se date_gt_def date_lt.simps
    by (cases "oneHourAgo < s"; cases "e < now") (simp_all only: v if_True if_False simp_thms)
qed

lemma spec_effectiveEnd_eq: "spec_effectiveEnd parse now b = sessionActualEnd parse now b"
  by (simp add: spec_effectiveEnd_def sessionActualEnd_def split: option.split)

lemma burnStep_spec: "burnStep parse now acc b = acc + spec_contribution parse now b"
proof (cases "startTime b")
  case None
  then show ?thesis by (simp add: burnStep_def spec_contribution_def knownStart_def)
next
  case (Some str)
  show ?thesis
  proof (cases "str = [] \<or> isGap b")
    case True
    then show ?thesis using Some
      by (auto simp add: burnStep_def spec_contribution_def knownStart_def Let_def)
  next
    case False
    then have ne: "str \<noteq> []" and ng: "\<not> isGap b" by simp_all
    show ?thesis
    proof (cases "parse str")
      case InvalidDate
      then show ?thesis using Some ne ng
        by (simp add: burnStep_invalid_start spec_contribution_def knownStart_def)
    next
      case (TimeValue s)
      note st = this
      show ?thesis
      proof (cases "sessionActualEnd parse now b")
        case InvalidDate
        then show ?thesis using Some ne ng st
          by (simp add: burnStep_invalid_end spec_contribution_def knownStart_def
                spec_effectiveEnd_eq)
      next
        case (TimeValue e)
        have ks: "knownStart parse b = Some s"
          using Some ne st by (simp add: knownStart_def)
        have W: "(min e now \<le> max s (now - 3600000)) =
                 (\<not> 0 < real_of_int (min e now - max s (now - 3600000)) / 60000)"
          by auto
        show ?thesis
          unfolding burnStep_times[OF Some ne ng st TimeValue] spec_contribution_def Let_def W
          by (simp add: ng ks TimeValue spec_effectiveEnd_eq del: of_int_diff)
      qed
    qed
  qed
qed

lemma foldl_burnStep:
  "foldl (burnStep parse now) acc bs = acc + sum_list (map (spec_contribution parse now) bs)"
  by (induction bs arbitrary: acc) (simp_all add: burnStep_spec)

section \<open>Properties of the wall-clock fields\<close>

lemma local_split:
  fixes L :: int
  shows "L div 86400000 = (L div 3600000) div 24"
proof -
  have "L div (3600000 * 24) = L div 3600000 div 24"
    by (rule zdiv_zmult2_eq) simp
  then show ?thesis by simp
qed

lemma hour_decomp:
  fixes L :: int
  shows "(L div 86400000) * 86400000 + ((L div 3600000) mod 24) * 3600000 = (L div 3600000) * 3600000"
proof -
  define q where "q = L div 3600000"
  have "q = (q div 24) * 24 + q mod 24"
    by simp
  then have "q * 3600000 = (q div 24) * 86400000 + (q mod 24) * 3600000"
    by linarith
  then show ?thesis by (simp add: local_split q_def)
qed

lemma setHours_local: "setHours tz t h + tz = localDay tz t * 86400000 + h * 3600000"
  by (simp add: setHours_def)

lemma setHours_current_hour:
  "setHours tz t (getHours tz t) + tz = ((t + tz) div 3600000) * 3600000"
  unfolding setHours_local localDay_def getHours_def by (rule hour_decomp)

lemma setHours_current_hour_less:
  assumes "getSeconds tz t \<noteq> 0 \<or> getMilliseconds tz t \<noteq> 0"
  shows "setHours tz t (getHours tz t) < t"
proof -
  define L where "L = t + tz"
  have nz: "L mod 3600000 \<noteq> 0"
  proof
    assume "L mod 3600000 = 0"
    then obtain k where k: "L = k * 3600000"
      by (metis mod_eq_0_iff_dvd dvd_def mult.commute)
    have "L = (k * 3600) * 1000" by (simp add: k)
    then have "L mod 1000 = 0" and "L div 1000 = (k * 60) * 60" by simp_all
    then have "getMilliseconds tz t = 0" and "getSeconds tz t = 0"
      by (simp_all add: getMilliseconds_def getSeconds_def L_def)
    with assms show False by simp
  qed
  have "0 \<le> L mod 3600000" by simp
  with nz have "0 < L mod 3600000" by linarith
  moreover have "L = (L div 3600000) * 3600000 + L mod 3600000" by simp
  ultimately have "(L div 3600000) * 3600000 < L" by linarith
  then show ?thesis using setHours_current_hour[of tz t] by (simp add: L_def)
qed

section \<open>Properties of the next reset time\<close>





lemma getNextResetTime_Some:
  assumes "find (resetPending (getHours tz now) (getMinutes tz now)) (resetHours c) = Some h"
  shows "getNextResetTime tz now c = setHours tz now h"
  using assms by (simp add: getNextResetTime_def)

lemma find_current_hour:
  assumes "getHours tz now \<in> set (resetHours c)" "getMinutes tz now = 0"
  shows "find (resetPending (getHours tz now) (getMinutes tz now)) (resetHours c) =
         Some (getHours tz now)"
proof (cases c)
  case None
  with assms(1) have "getHours tz now = 4 \<or> getHours tz now = 9 \<or> getHours tz now = 14 \<or>
     getHours tz now = 18 \<or> getHours tz now = 23"
    by (simp add: resetHours_def)
  then show ?thesis using assms(2) None
    by (elim disjE) (simp_all add: resetHours_def resetPending_def)
next
  case (Some h)
  then show ?thesis using assms by (simp add: resetHours_def resetPending_def)
qed

section \<open>Properties of the next reset time in a zone\<close>
















lemma burnStep_skip:
  assumes "isGap b \<or> (\<exists>e. sessionActualEnd parse now b = TimeValue e \<and> e < now - 3600000)"
  shows "burnStep parse now acc b = acc"
  using assms by (auto simp: burnStep_def Let_def split: option.split)

section \<open>The claims about the burn rate\<close>

text \<open>
  Claim C1. For every snapshot and every time \<open>now\<close>, \<open>calculateHourlyBurnRate\<close> is the
  quantity of the specification: the sum, over the non-gap blocks with a known start
  whose effective end does not precede \<open>now\<close> minus 60 minutes, of
  \<open>totalTokens * (W / D)\<close> (only when \<open>W > 0\<close> and \<open>D > 0\<close>), divided by 60, and 0 when
  that total is not positive.
\<close>

theorem calculateHourlyBurnRate_refines_spec:
  "calculateHourlyBurnRate parse blocks now = spec_computeHourlyBurnRate parse blocks now"
  by (simp add: calculateHourlyBurnRate_def spec_computeHourlyBurnRate_def foldl_burnStep)

text \<open>
  Claim C7. A gap block, whatever its other fields, and a block whose effective end is
  more than 60 minutes before \<open>now\<close>, leave the running total as it is, and removing
  such a block from any snapshot does not change the burn rate.
\<close>

theorem gap_or_stale_block_contributes_nothing:
  assumes "isGap b \<or> (\<exists>e. sessionActualEnd parse now b = TimeValue e \<and> e < now - 3600000)"
  shows "burnStep parse now acc b = acc \<and>
         calculateHourlyBurnRate parse (xs @ b # ys) now =
         calculateHourlyBurnRate parse (xs @ ys) now"
  using burnStep_skip[OF assms] by (simp add: calculateHourlyBurnRate_def)

theorem gap_or_stale_block_contributes_nothing_witness:
  "isGap \<lparr>startTime = Some ''t'', actualEndTime = None, totalTokens = 500,
          isGap = True, isActive = False\<rparr> \<and>
   calculateHourlyBurnRate (\<lambda>s. TimeValue 0)
     [\<lparr>startTime = Some ''t'', actualEndTime = None, totalTokens = 500,
       isGap = True, isActive = False\<rparr>] 60000 =
   calculateHourlyBurnRate (\<lambda>s. TimeValue 0) [] 60000 \<and>
   sessionActualEnd (\<lambda>s. TimeValue 0) 7200000
     \<lparr>startTime = Some ''t'', actualEndTime = Some ''t'', totalTokens = 500,
       isGap = False, isActive = False\<rparr> = TimeValue 0 \<and>
   calculateHourlyBurnRate (\<lambda>s. TimeValue 0)
     [\<lparr>startTime = Some ''t'', actualEndTime = Some ''t'', totalTokens = 500,
       isGap = False, isActive = False\<rparr>] 7200000 =
   calculateHourlyBurnRate (\<lambda>s. TimeValue 0) [] 7200000"
proof -
  let ?gap = "\<lparr>startTime = Some ''t'', actualEndTime = None, totalTokens = 500,
                isGap = True, isActive = False\<rparr>"
  let ?stale = "\<lparr>startTime = Some ''t'', actualEndTime = Some ''t'', totalTokens = 500,
                  isGap = False, isActive = False\<rparr>"
  have e: "sessionActualEnd (\<lambda>s. TimeValue 0) 7200000 ?stale = TimeValue 0"
    by (simp add: sessionActualEnd_def)
  then have h: "isGap ?stale \<or> (\<exists>e. sessionActualEnd (\<lambda>s. TimeValue 0) 7200000 ?stale =
                   TimeValue e \<and> e < 7200000 - 3600000)"
    by simp
  from gap_or_stale_block_contributes_nothing
         [of ?gap "\<lambda>s. TimeValue 0" 60000 0 "[]" "[]"]
       gap_or_stale_block_contributes_nothing[OF h, of 0 "[]" "[]"] e
  show ?thesis by simp
qed

text \<open>
  Claim C8. For every snapshot, whatever the fields of its blocks, and every \<open>now\<close> the
  burn rate is at least 0, and it is exactly 0 for the empty snapshot.
\<close>

theorem calculateHourlyBurnRate_nonneg:
  "0 \<le> calculateHourlyBurnRate parse blocks now \<and> calculateHourlyBurnRate parse [] now = 0"
  by (simp add: calculateHourlyBurnRate_def Let_def)

section \<open>The claims about the next reset time\<close>




text \<open>
  Claim C10. The result is not always at or after \<open>now\<close>: when the current hour is in the
  schedule, the current minute is 0 and the seconds or milliseconds are not, the
  returned time is strictly earlier than \<open>now\<close>.
\<close>

theorem getNextResetTime_before_now:
  assumes "getHours tz now \<in> set (resetHours c)" "getMinutes tz now = 0"
    and "getSeconds tz now \<noteq> 0 \<or> getMilliseconds tz now \<noteq> 0"
  shows "getNextResetTime tz now c < now"
  unfolding getNextResetTime_Some[OF find_current_hour[OF assms(1,2)]]
  by (rule setHours_current_hour_less[OF assms(3)])

theorem getNextResetTime_before_now_witness:
  "getHours 0 14400001 \<in> set (resetHours None) \<and> getMinutes 0 14400001 = 0 \<and>
   getMilliseconds 0 14400001 = 1 \<and>
   getNextResetTime 0 14400001 None < 14400001"
proof -
  have a: "getHours 0 14400001 \<in> set (resetHours None)"
    by (simp add: getHours_def resetHours_def)
  have b: "getMinutes 0 14400001 = 0"
    by (simp add: getMinutes_def)
  have c: "getSeconds 0 14400001 \<noteq> 0 \<or> getMilliseconds 0 14400001 \<noteq> 0"
    by (simp add: getMilliseconds_def)
  have d: "getMilliseconds 0 14400001 = 1"
    by (simp add: getMilliseconds_def)
  from getNextResetTime_before_now[OF a b c] a b d show ?thesis by simp
qed

section \<open>Properties of the token limit\<close>

lemma getTokenLimit_table:
  "getTokenLimit ''pro'' blocks = Number 7000"
  "getTokenLimit ''max5'' blocks = Number 35000"
  "getTokenLimit ''max20'' blocks = Number 140000"
  by (simp_all add: getTokenLimit_def limitsLookup_def limits_def)

lemma getTokenLimit_unknown:
  assumes "p \<notin> {''pro'', ''max5'', ''max20'', ''custom_max''}"
    and "p \<notin> set objectPrototypeKeys"
  shows "getTokenLimit p blocks = Number 7000"
  using assms by (simp add: getTokenLimit_def limitsLookup_def limits_def)

lemma getTokenLimit_custom_max:
  "getTokenLimit ''custom_max'' (Some bs) =
     Number (if 0 < maxTokensLoop 0 bs then maxTokensLoop 0 bs else 7000)"
  by (simp add: getTokenLimit_def Let_def)

lemma maxTokensLoop_fold:
  "maxTokensLoop m bs =
     fold max (map totalTokens (filter (\<lambda>b. \<not> isGap b \<and> \<not> isActive b) bs)) m"
  by (induction bs arbitrary: m) (simp_all add: max_def)

lemma maxTokensLoop_Max:
  "maxTokensLoop m bs =
     Max (insert m (totalTokens ` {b \<in> set bs. \<not> isGap b \<and> \<not> isActive b}))"
proof -
  have "Max (set (m # map totalTokens (filter (\<lambda>b. \<not> isGap b \<and> \<not> isActive b) bs))) =
        fold max (map totalTokens (filter (\<lambda>b. \<not> isGap b \<and> \<not> isActive b) bs)) m"
    by (rule Max.set_eq_fold)
  then show ?thesis by (simp add: maxTokensLoop_fold)
qed

lemma maxTokensLoop_ge: "m \<le> maxTokensLoop m bs"
  by (simp add: maxTokensLoop_Max)

lemma getTokenLimit_custom_max_history:
  assumes "\<forall>b \<in> set bs. \<not> isGap b \<and> \<not> isActive b \<longrightarrow> 0 \<le> totalTokens b"
  shows "getTokenLimit ''custom_max'' (Some bs) =
     Number (if {b \<in> set bs. \<not> isGap b \<and> \<not> isActive b} = {} \<or>
                Max (totalTokens ` {b \<in> set bs. \<not> isGap b \<and> \<not> isActive b}) = 0
             then 7000
             else Max (totalTokens ` {b \<in> set bs. \<not> isGap b \<and> \<not> isActive b}))"
proof (cases "{b \<in> set bs. \<not> isGap b \<and> \<not> isActive b} = {}")
  case True
  show ?thesis unfolding getTokenLimit_custom_max maxTokensLoop_Max True by simp
next
  case False
  define E where "E = totalTokens ` {b \<in> set bs. \<not> isGap b \<and> \<not> isActive b}"
  have fin: "finite E" and ne: "E \<noteq> {}" using False by (auto simp: E_def)
  have nonneg: "\<forall>x\<in>E. 0 \<le> x" using assms by (auto simp: E_def)
  have "0 \<le> Max E" using fin ne nonneg by (meson Max_in)
  moreover have "Max (insert 0 E) = max 0 (Max E)" using fin ne by simp
  ultimately have "maxTokensLoop 0 bs = Max E"
    by (simp add: maxTokensLoop_Max E_def[symmetric])
  then show ?thesis using False \<open>0 \<le> Max E\<close>
    by (auto simp add: getTokenLimit_custom_max E_def[symmetric])
qed

lemma objectPrototypeKeys_set:
  "set objectPrototypeKeys =
     {''constructor'', ''hasOwnProperty'', ''isPrototypeOf'',
      ''propertyIsEnumerable'', ''toLocaleString'', ''toString'', ''valueOf'',
      ''__proto__'', ''__defineGetter__'', ''__defineSetter__'',
      ''__lookupGetter__'', ''__lookupSetter__''}"
  unfolding objectPrototypeKeys_def by (simp only: list.set)

section \<open>The claims about the token limit\<close>

text \<open>
  Claim C4, for the identifiers that are not inherited names. The fixed plans give
  7000, 35000 and 140000; a plan identifier that is neither one of the four plans nor
  the name of a member that the table inherits from \<^verbatim>\<open>Object.prototype\<close> gives 7000;
  \<^verbatim>\<open>custom_max\<close> with a history, whose totals are not negative, gives the largest total
  of the blocks that are neither gaps nor active, and 7000 when there is no such block
  or that maximum is zero.
\<close>

theorem getTokenLimit_plans:
  assumes "\<forall>b\<in>set history. \<not> isGap b \<and> \<not> isActive b \<longrightarrow> 0 \<le> totalTokens b"
  shows "getTokenLimit ''pro'' blocks = Number 7000 \<and>
         getTokenLimit ''max5'' blocks = Number 35000 \<and>
         getTokenLimit ''max20'' blocks = Number 140000 \<and>
         (p \<notin> {''pro'', ''max5'', ''max20'', ''custom_max''} \<and>
          p \<notin> {''constructor'', ''hasOwnProperty'', ''isPrototypeOf'',
                ''propertyIsEnumerable'', ''toLocaleString'', ''toString'', ''valueOf'',
                ''__proto__'', ''__defineGetter__'', ''__defineSetter__'',
                ''__lookupGetter__'', ''__lookupSetter__''} \<longrightarrow>
          getTokenLimit p blocks = Number 7000) \<and>
         getTokenLimit ''custom_max'' (Some history) =
           Number (if {b \<in> set history. \<not> isGap b \<and> \<not> isActive b} = {} \<or>
                      Max (totalTokens ` {b \<in> set history. \<not> isGap b \<and> \<not> isActive b}) = 0
                   then 7000
                   else Max (totalTokens ` {b \<in> set history. \<not> isGap b \<and> \<not> isActive b}))"
proof (intro conjI impI)
  show "getTokenLimit ''pro'' blocks = Number 7000"
    by (rule getTokenLimit_table)
  show "getTokenLimit ''max5'' blocks = Number 35000"
    by (rule getTokenLimit_table)
  show "getTokenLimit ''max20'' blocks = Number 140000"
    by (rule getTokenLimit_table)
  show "getTokenLimit p blocks = Number 7000"
    if "p \<notin> {''pro'', ''max5'', ''max20'', ''custom_max''} \<and>
          p \<notin> {''constructor'', ''hasOwnProperty'', ''isPrototypeOf'',
                ''propertyIsEnumerable'', ''toLocaleString'', ''toString'', ''valueOf'',
                ''__proto__'', ''__defineGetter__'', ''__defineSetter__'',
                ''__lookupGetter__'', ''__lookupSetter__''}"
    using that unfolding objectPrototypeKeys_set[symmetric]
    by (intro getTokenLimit_unknown) (rule conjunct1, assumption, rule conjunct2, assumption)
  show "getTokenLimit ''custom_max'' (Some history) =
           Number (if {b \<in> set history. \<not> isGap b \<and> \<not> isActive b} = {} \<or>
                      Max (totalTokens ` {b \<in> set history. \<not> isGap b \<and> \<not> isActive b}) = 0
                   then 7000
                   else Max (totalTokens ` {b \<in> set history. \<not> isGap b \<and> \<not> isActive b}))"
    by (rule getTokenLimit_custom_max_history[OF assms])
qed

theorem getTokenLimit_plans_witness:
  "getTokenLimit ''team'' None = Number 7000 \<and>
   getTokenLimit ''custom_max''
     (Some [\<lparr>startTime = None, actualEndTime = None, totalTokens = 9000,
              isGap = False, isActive = False\<rparr>,
            \<lparr>startTime = None, actualEndTime = None, totalTokens = 12000,
              isGap = False, isActive = True\<rparr>,
            \<lparr>startTime = None, actualEndTime = None, totalTokens = 99999,
              isGap = True, isActive = False\<rparr>,
            \<lparr>startTime = None, actualEndTime = None, totalTokens = 4000,
              isGap = False, isActive = False\<rparr>]) = Number 9000 \<and>
   Max (totalTokens `
     {b \<in> set [\<lparr>startTime = None, actualEndTime = None, totalTokens = 9000,
                  isGap = False, isActive = False\<rparr>,
                \<lparr>startTime = None, actualEndTime = None, totalTokens = 12000,
                  isGap = False, isActive = True\<rparr>,
                \<lparr>startTime = None, actualEndTime = None, totalTokens = 99999,
                  isGap = True, isActive = False\<rparr>,
                \<lparr>startTime = None, actualEndTime = None, totalTokens = 4000,
                  isGap = False, isActive = False\<rparr>].
        \<not> isGap b \<and> \<not> isActive b}) = 9000"
proof -
  let ?h = "[\<lparr>startTime = None, actualEndTime = None, totalTokens = 9000,
              isGap = False, isActive = False\<rparr>,
            \<lparr>startTime = None, actualEndTime = None, totalTokens = 12000,
              isGap = False, isActive = True\<rparr>,
            \<lparr>startTime = None, actualEndTime = None, totalTokens = 99999,
              isGap = True, isActive = False\<rparr>,
            \<lparr>startTime = None, actualEndTime = None, totalTokens = 4000,
              isGap = False, isActive = False\<rparr>]"
  let ?E = "{b \<in> set ?h. \<not> isGap b \<and> \<not> isActive b}"
  have nn: "\<forall>b\<in>set ?h. \<not> isGap b \<and> \<not> isActive b \<longrightarrow> 0 \<le> totalTokens b"
    by simp
  note t = getTokenLimit_plans[OF nn, where blocks = None and p = "''team''"]
  have k: "''team'' \<notin> {''pro'', ''max5'', ''max20'', ''custom_max''} \<and>
           ''team'' \<notin> {''constructor'', ''hasOwnProperty'', ''isPrototypeOf'',
                ''propertyIsEnumerable'', ''toLocaleString'', ''toString'', ''valueOf'',
                ''__proto__'', ''__defineGetter__'', ''__defineSetter__'',
                ''__lookupGetter__'', ''__lookupSetter__''}"
    by simp
  have a: "getTokenLimit ''team'' None = Number 7000"
    by (rule mp[OF t[THEN conjunct2, THEN conjunct2, THEN conjunct2, THEN conjunct1] k])
  have v: "getTokenLimit ''custom_max'' (Some ?h) = Number 9000"
    by (simp add: getTokenLimit_def)
  have pick: "x = 9000" if "Number (if c then 7000 else x) = Number 9000" for c and x :: real
    using that by (cases c) simp_all
  have m: "Max (totalTokens ` ?E) = 9000"
    by (rule pick, rule trans[OF
          t[THEN conjunct2, THEN conjunct2, THEN conjunct2, THEN conjunct2, symmetric] v])
  from a v m show ?thesis by (intro conjI)
qed

text \<open>
  Claim C4 as stated, for any unknown plan identifier, fails at the identifier
  \<^verbatim>\<open>toString\<close>: the lookup in the table finds the inherited function, which is truthy,
  and the function is returned instead of 7000.
\<close>

theorem getTokenLimit_inherited_key:
  "getTokenLimit ''toString'' None = Inherited ''toString'' \<and>
   getTokenLimit ''toString'' None \<noteq> Number 7000"
  by (simp add: getTokenLimit_def limitsLookup_def limits_def objectPrototypeKeys_def)

text \<open>
  Claim C9. \<^verbatim>\<open>custom_max\<close> without a history falls through to the table, where it is
  not a key, and gives 7000.
\<close>

theorem getTokenLimit_custom_max_without_history:
  "getTokenLimit ''custom_max'' None = Number 7000 \<and> limitsLookup ''custom_max'' = None"
  by (simp add: getTokenLimit_def limitsLookup_def limits_def objectPrototypeKeys_def)

section \<open>Properties of the polling loop and of the prediction\<close>

lemma tick_tokenLimit:
  "tokenLimit (fst (tick parse tz config state data now)) =
     (case data of
        None \<Rightarrow> tokenLimit state
      | Some blocks \<Rightarrow>
          (case find isActive blocks of
             None \<Rightarrow> tokenLimit state
           | Some activeBlock \<Rightarrow>
               raisedLimit (plan config) (tokenLimit state) (totalTokens activeBlock) blocks))"
  by (simp add: tick_def Let_def split: option.split)

lemma tick_resetTime:
  "map_option shownResetTime (snd (tick parse tz config state data now)) =
     (case data of
        None \<Rightarrow> None
      | Some blocks \<Rightarrow>
          (case find isActive blocks of
             None \<Rightarrow> None
           | Some activeBlock \<Rightarrow> Some (getNextResetTime tz now None)))"
  by (simp add: tick_def Let_def split: option.split)

lemma tick_ignores_resetHour:
  "tick parse tz (config\<lparr>resetHour := h\<rparr>) state data now = tick parse tz config state data now"
  by (simp add: tick_def Let_def split: option.split)

lemma raisedLimit_eq:
  "raisedLimit p limit used bs =
     (if limit < used \<and> p = ''pro'' \<and>
         limit < (if 0 < maxTokensLoop 0 bs then maxTokensLoop 0 bs else 7000)
      then (if 0 < maxTokensLoop 0 bs then maxTokensLoop 0 bs else 7000)
      else limit)"
  by (simp add: raisedLimit_def getTokenLimit_custom_max)

lemma raisedLimit_ge: "limit \<le> raisedLimit p limit used bs"
  by (simp add: raisedLimit_eq)

lemma raisedLimit_changed:
  assumes "raisedLimit p limit used bs \<noteq> limit"
  shows "p = ''pro'' \<and> limit < used \<and>
         getTokenLimit ''custom_max'' (Some bs) = Number (raisedLimit p limit used bs) \<and>
         limit < raisedLimit p limit used bs"
  using assms by (simp add: raisedLimit_eq getTokenLimit_custom_max split: if_splits)

lemma raisedLimit_raises:
  assumes "p = ''pro''" "limit < used"
    and "getTokenLimit ''custom_max'' (Some bs) = Number n" "limit < n"
  shows "raisedLimit p limit used bs = n"
  using assms by (simp add: raisedLimit_def)

lemma tick_tokenLimit_ge:
  "tokenLimit state \<le> tokenLimit (fst (tick parse tz config state data now))"
  by (simp add: tick_tokenLimit raisedLimit_ge split: option.split)

lemma run_tokenLimit_ge:
  "tokenLimit state \<le> tokenLimit (run parse tz config state polls)"
proof (induction polls arbitrary: state)
  case Nil
  show ?case by simp
next
  case (Cons poll polls)
  obtain data now where poll: "poll = (data, now)" by (cases poll)
  have "tokenLimit state \<le> tokenLimit (fst (tick parse tz config state data now))"
    by (rule tick_tokenLimit_ge)
  also have "\<dots> \<le> tokenLimit (run parse tz config (fst (tick parse tz config state data now)) polls)"
    by (rule Cons.IH)
  finally show ?case by (simp add: poll)
qed

lemma tick_changed:
  assumes "tokenLimit (fst (tick parse tz config state data now)) \<noteq> tokenLimit state"
  shows "plan config = ''pro'' \<and>
         (\<exists>blocks activeBlock.
            data = Some blocks \<and> find isActive blocks = Some activeBlock \<and>
            tokenLimit state < totalTokens activeBlock \<and>
            getTokenLimit ''custom_max'' (Some blocks) =
              Number (tokenLimit (fst (tick parse tz config state data now))) \<and>
            tokenLimit state < tokenLimit (fst (tick parse tz config state data now)))"
proof -
  from assms obtain blocks where d: "data = Some blocks"
    by (cases data) (simp_all add: tick_tokenLimit)
  from assms d obtain a where a: "find isActive blocks = Some a"
    by (cases "find isActive blocks") (simp_all add: tick_tokenLimit)
  have eq: "tokenLimit (fst (tick parse tz config state data now)) =
            raisedLimit (plan config) (tokenLimit state) (totalTokens a) blocks"
    by (simp add: tick_tokenLimit d a)
  from assms have "raisedLimit (plan config) (tokenLimit state) (totalTokens a) blocks \<noteq> tokenLimit state"
    by (simp add: eq)
  from raisedLimit_changed[OF this] show ?thesis
    unfolding eq using d a by blast
qed

lemma tick_raises:
  assumes "plan config = ''pro''" "find isActive blocks = Some activeBlock"
    and "tokenLimit state < totalTokens activeBlock"
    and "getTokenLimit ''custom_max'' (Some blocks) = Number n" "tokenLimit state < n"
  shows "tokenLimit (fst (tick parse tz config state (Some blocks) now)) = n"
  using assms by (simp add: tick_tokenLimit raisedLimit_raises)

lemma tick_idempotent:
  assumes "tokenLimit (fst (tick parse tz config state (Some blocks) now)) \<noteq> tokenLimit state"
    and "maxTokensLoop 0 blocks' = maxTokensLoop 0 blocks"
  shows "tokenLimit (fst (tick parse tz config (fst (tick parse tz config state (Some blocks) now))
                       (Some blocks') now')) =
         tokenLimit (fst (tick parse tz config state (Some blocks) now))"
proof -
  define s1 where "s1 = fst (tick parse tz config state (Some blocks) now)"
  from tick_changed[OF assms(1)]
  have lim: "getTokenLimit ''custom_max'' (Some blocks) = Number (tokenLimit s1)"
    unfolding s1_def by blast
  then have "tokenLimit s1 = (if 0 < maxTokensLoop 0 blocks then maxTokensLoop 0 blocks else 7000)"
    by (simp add: getTokenLimit_custom_max)
  then have "raisedLimit p (tokenLimit s1) used blocks' = tokenLimit s1" for p used
    by (simp add: raisedLimit_eq assms(2))
  then have "tokenLimit (fst (tick parse tz config s1 (Some blocks') now')) = tokenLimit s1"
    by (simp add: tick_tokenLimit split: option.split)
  then show ?thesis by (simp add: s1_def)
qed

lemma tick_predicted:
  "map_option shownPredictedEndTime (snd (tick parse tz config state data now)) =
     (case data of
        None \<Rightarrow> None
      | Some blocks \<Rightarrow>
          (case find isActive blocks of
             None \<Rightarrow> None
           | Some activeBlock \<Rightarrow>
               Some (predictedEndTime now (calculateHourlyBurnRate parse blocks now)
                       (raisedLimit (plan config) (tokenLimit state) (totalTokens activeBlock) blocks
                          - totalTokens activeBlock)
                       (getNextResetTime tz now None))))"
  by (simp add: tick_def Let_def split: option.split)

lemma predictedEndTime_no_signal:
  assumes "burnRate \<le> 0 \<or> tokensLeft \<le> 0"
  shows "predictedEndTime now burnRate tokensLeft reset = TimeValue reset"
  using assms by (auto simp: predictedEndTime_def)

lemma predictedEndTime_candidate:
  assumes "0 < burnRate" "0 < tokensLeft"
  shows "predictedEndTime now burnRate tokensLeft reset =
     (if date_le (newDate (real_of_int now + tokensLeft / burnRate * 60000)) (TimeValue now) \<or>
         date_gt (newDate (real_of_int now + tokensLeft / burnRate * 60000)) (TimeValue reset)
      then TimeValue reset
      else newDate (real_of_int now + tokensLeft / burnRate * 60000))"
  using assms by (simp add: predictedEndTime_def Let_def)

lemma predictedEndTime_valid_le:
  assumes "predictedEndTime now burnRate tokensLeft reset = TimeValue p"
  shows "p \<le> reset"
proof (cases "0 < burnRate \<and> 0 < tokensLeft")
  case False
  then have "predictedEndTime now burnRate tokensLeft reset = TimeValue reset"
    by (intro predictedEndTime_no_signal) auto
  with assms show ?thesis by simp
next
  case True
  show ?thesis
  proof (cases "newDate (real_of_int now + tokensLeft / burnRate * 60000)")
    case InvalidDate
    with True assms show ?thesis by (simp add: predictedEndTime_candidate date_gt_def)
  next
    case (TimeValue c)
    with True assms show ?thesis
      by (simp add: predictedEndTime_candidate date_gt_def split: if_splits)
  qed
qed

lemma predictedEndTime_invalid_iff:
  "predictedEndTime now burnRate tokensLeft reset = InvalidDate \<longleftrightarrow>
     0 < burnRate \<and> 0 < tokensLeft \<and>
     newDate (real_of_int now + tokensLeft / burnRate * 60000) = InvalidDate"
proof (cases "0 < burnRate \<and> 0 < tokensLeft")
  case False
  then have "predictedEndTime now burnRate tokensLeft reset = TimeValue reset"
    by (intro predictedEndTime_no_signal) auto
  with False show ?thesis by auto
next
  case True
  then show ?thesis
    by (cases "newDate (real_of_int now + tokensLeft / burnRate * 60000)")
       (simp_all add: predictedEndTime_candidate date_gt_def)
qed

section \<open>The claims about the prediction and the polling loop\<close>

text \<open>
  Claim C2. The prediction is the reset time when the burn rate or the tokens left are
  not positive (\<open>predictedEndTime_no_signal\<close>); otherwise it is the reset time when the
  candidate date is at or before now or after the reset time, and the candidate
  otherwise (\<open>predictedEndTime_candidate\<close>). A result that is a valid date is at or before
  the reset time (\<open>predictedEndTime_valid_le\<close>). The result is not always at or before
  the reset time: when now plus the minutes to depletion leaves the range of a date,
  the candidate is an Invalid Date, both comparisons are false and the Invalid Date is
  returned. This happens in an iteration of the loop for one active block of 1 token
  that started at the epoch.
\<close>

theorem predictedEndTime_invalid_date:
  "predictedEndTime 1800000000000 (1 / 100000000) 7000 1800003600000 = InvalidDate \<and>
   \<not> date_le (predictedEndTime 1800000000000 (1 / 100000000) 7000 1800003600000)
        (TimeValue 1800003600000) \<and>
   map_option shownPredictedEndTime
     (snd (tick (\<lambda>s. if s = ''1970-01-01T00:00:00.000Z'' then TimeValue 0 else InvalidDate) 0
             \<lparr>plan = ''pro'', resetHour = None\<rparr>
             \<lparr>tokenLimit = 7000, burnRateHistory = []\<rparr>
             (Some [\<lparr>startTime = Some ''1970-01-01T00:00:00.000Z'', actualEndTime = None,
                     totalTokens = 1, isGap = False, isActive = True\<rparr>])
             1800000000000)) = Some InvalidDate"
proof -
  have p: "predictedEndTime 1800000000000 (1 / 100000000) 7000 1800003600000 = InvalidDate"
    by (simp add: predictedEndTime_def newDate_def date_gt_def Let_def)
  have b: "calculateHourlyBurnRate
             (\<lambda>s. if s = ''1970-01-01T00:00:00.000Z'' then TimeValue 0 else InvalidDate)
             [\<lparr>startTime = Some ''1970-01-01T00:00:00.000Z'', actualEndTime = None,
               totalTokens = 1, isGap = False, isActive = True\<rparr>] 1800000000000 = 1 / 30000000"
    by (simp add: calculateHourlyBurnRate_def burnStep_def sessionActualEnd_def date_gt_def Let_def)
  have q: "predictedEndTime 1800000000000 (1 / 30000000) 6999 r = InvalidDate" for r
    by (simp add: predictedEndTime_def newDate_def date_gt_def Let_def)
  show ?thesis
    unfolding tick_predicted p
    by (simp add: b raisedLimit_eq q del: One_nat_def)
qed

text \<open>
  Claim C5. The loop computes the reset time with the default schedule whether or not a
  custom reset hour was configured: with the custom hour 12 and the clock at 10:30, the
  reset time of the iteration is 14:00, where the custom schedule gives 12:00.
\<close>

theorem custom_reset_hour_not_used:
  "map_option shownResetTime
     (snd (tick (\<lambda>s. InvalidDate) 0
             \<lparr>plan = ''pro'', resetHour = Some 12\<rparr>
             \<lparr>tokenLimit = 7000, burnRateHistory = []\<rparr>
             (Some [\<lparr>startTime = None, actualEndTime = None,
                     totalTokens = 100, isGap = False, isActive = True\<rparr>])
             37800000)) = Some 50400000 \<and>
   getHours 0 37800000 = 10 \<and> getMinutes 0 37800000 = 30 \<and>
   getHours 0 50400000 = 14 \<and>
   getNextResetTime 0 37800000 (Some 12) = 43200000 \<and>
   getHours 0 43200000 = 12"
  by (simp add: tick_resetTime getNextResetTime_def getHours_def getMinutes_def resetHours_def
        resetPending_def setHours_def localDay_def)

text \<open>
  Claim C6. Over every sequence of polls the token limit never decreases; an iteration
  changes it only when the plan is \<^verbatim>\<open>pro\<close>, the tokens of the active block exceed the
  limit and the limit derived by \<^verbatim>\<open>custom_max\<close> from the snapshot exceeds it too, and then
  the new limit is that derived limit; once an iteration has raised the limit, an
  iteration on a history with the same maximum leaves it as it is.
\<close>

theorem tokenLimit_ratchet:
  "tokenLimit state \<le> tokenLimit (run parse tz config state polls)
   \<and> (tokenLimit (fst (tick parse tz config state data now)) \<noteq> tokenLimit state \<longrightarrow>
        plan config = ''pro'' \<and>
        (\<exists>blocks activeBlock.
           data = Some blocks \<and> find isActive blocks = Some activeBlock \<and>
           tokenLimit state < totalTokens activeBlock \<and>
           getTokenLimit ''custom_max'' (Some blocks) =
             Number (tokenLimit (fst (tick parse tz config state data now))) \<and>
           tokenLimit state < tokenLimit (fst (tick parse tz config state data now))))
   \<and> (plan config = ''pro'' \<and> find isActive history = Some active \<and>
      tokenLimit state < totalTokens active \<and>
      getTokenLimit ''custom_max'' (Some history) = Number n \<and> tokenLimit state < n \<longrightarrow>
        tokenLimit (fst (tick parse tz config state (Some history) now)) = n)
   \<and> (tokenLimit (fst (tick parse tz config state (Some history) now)) \<noteq> tokenLimit state \<and>
      maxTokensLoop 0 history' = maxTokensLoop 0 history \<longrightarrow>
        tokenLimit (fst (tick parse tz config (fst (tick parse tz config state (Some history) now))
                      (Some history') now')) =
        tokenLimit (fst (tick parse tz config state (Some history) now)))"
  using run_tokenLimit_ge[of state parse tz config polls]
    tick_changed[of parse tz config state data now]
    tick_raises[of config history active state n parse tz now]
    tick_idempotent[of parse tz config state history now history' now']
  by blast

theorem tokenLimit_ratchet_witness:
  "tokenLimit (fst (tick (\<lambda>s. InvalidDate) 0 \<lparr>plan = ''pro'', resetHour = None\<rparr>
      \<lparr>tokenLimit = 7000, burnRateHistory = []\<rparr>
      (Some [\<lparr>startTime = None, actualEndTime = None, totalTokens = 9000,
               isGap = False, isActive = False\<rparr>,
             \<lparr>startTime = None, actualEndTime = None, totalTokens = 8000,
               isGap = False, isActive = True\<rparr>]) 0)) = 9000 \<and>
   tokenLimit (fst (tick (\<lambda>s. InvalidDate) 0 \<lparr>plan = ''pro'', resetHour = None\<rparr>
      (fst (tick (\<lambda>s. InvalidDate) 0 \<lparr>plan = ''pro'', resetHour = None\<rparr>
        \<lparr>tokenLimit = 7000, burnRateHistory = []\<rparr>
        (Some [\<lparr>startTime = None, actualEndTime = None, totalTokens = 9000,
                 isGap = False, isActive = False\<rparr>,
               \<lparr>startTime = None, actualEndTime = None, totalTokens = 8000,
                 isGap = False, isActive = True\<rparr>]) 0))
      (Some [\<lparr>startTime = None, actualEndTime = None, totalTokens = 9000,
               isGap = False, isActive = False\<rparr>,
             \<lparr>startTime = None, actualEndTime = None, totalTokens = 9500,
               isGap = False, isActive = True\<rparr>]) 3000)) = 9000"
proof -
  let ?P = "\<lambda>s::string. InvalidDate"
  let ?cfg = "\<lparr>plan = ''pro'', resetHour = None\<rparr>"
  let ?s = "\<lparr>tokenLimit = 7000, burnRateHistory = []\<rparr>"
  let ?h = "[\<lparr>startTime = None, actualEndTime = None, totalTokens = 9000,
               isGap = False, isActive = False\<rparr>,
             \<lparr>startTime = None, actualEndTime = None, totalTokens = 8000,
               isGap = False, isActive = True\<rparr>]"
  let ?h' = "[\<lparr>startTime = None, actualEndTime = None, totalTokens = 9000,
               isGap = False, isActive = False\<rparr>,
             \<lparr>startTime = None, actualEndTime = None, totalTokens = 9500,
               isGap = False, isActive = True\<rparr>]"
  have r: "tokenLimit (fst (tick ?P 0 ?cfg ?s (Some ?h) 0)) = 9000"
    by (simp add: tick_tokenLimit raisedLimit_eq)
  then have ch: "tokenLimit (fst (tick ?P 0 ?cfg ?s (Some ?h) 0)) \<noteq> tokenLimit ?s"
    by simp
  have m: "maxTokensLoop 0 ?h' = maxTokensLoop 0 ?h"
    by simp
  from tokenLimit_ratchet[where state = ?s and parse = ?P and tz = 0 and config = ?cfg and polls = "[]"
        and data = "Some ?h" and now = 0 and history = ?h and history' = ?h' and now' = 3000]
  have "tokenLimit (fst (tick ?P 0 ?cfg (fst (tick ?P 0 ?cfg ?s (Some ?h) 0)) (Some ?h') 3000)) =
        tokenLimit (fst (tick ?P 0 ?cfg ?s (Some ?h) 0))"
    using ch m by blast
  with r show ?thesis by simp
qed

end
